theory Spec2Isabelle
  imports Main
begin

section \<open>Data model\<close>

text \<open>
  Strings are lists of bytes: every string of the program is held by its UTF-8 encoding,
  which is how the source file stores its literals. Two JavaScript strings are equal
  exactly when their encodings are, and the digits \<open>0\<close> to \<open>9\<close> are single bytes
  that occur in no encoding of another character.
\<close>

text \<open>A result of the platform: \<open>Ok\<close> carries the value, \<open>Err\<close> the error.\<close>

datatype action_error = ActionError string

datatype 'a action_result = Ok 'a | Err action_error

fun isError :: "'a action_result \<Rightarrow> bool" where
  "isError (Ok _) = False"
| "isError (Err _) = True"

fun isOk :: "'a action_result \<Rightarrow> bool" where
  "isOk (Ok _) = True"
| "isOk (Err _) = False"

text \<open>
  The content of an event is a JSON object. An object is the list of its own properties
  in enumeration order; property names are distinct in every object that a JSON parser
  builds.
\<close>

datatype json =
    JNull
  | JBool bool
  | JNumber int
  | JString string
  | JArray "json list"
  | JObject "(string \<times> json) list"

record room_event =
  event_id :: string
  room_id :: string
  sender :: string
  content :: "(string \<times> json) list"

text \<open>
  Property access \<open>v[k]\<close> on a value that the type of the program says is an object;
  \<open>None\<close> is \<open>undefined\<close>.
\<close>

fun js_prop :: "json \<Rightarrow> string \<Rightarrow> json option" where
  "js_prop (JObject ps) k = map_of ps k"
| "js_prop _ k = None"

text \<open>
  The names that every plain object inherits from \<open>Object.prototype\<close>. The operator
  \<open>in\<close> answers true for them as well as for the own properties of the object.
\<close>

definition object_prototype_properties :: "string list" where
  "object_prototype_properties =
     [''constructor'', ''__defineGetter__'', ''__defineSetter__'', ''hasOwnProperty'',
      ''__lookupGetter__'', ''__lookupSetter__'', ''isPrototypeOf'',
      ''propertyIsEnumerable'', ''toString'', ''valueOf'', ''__proto__'',
      ''toLocaleString'']"

definition js_in :: "string \<Rightarrow> (string \<times> 'a) list \<Rightarrow> bool" where
  "js_in k obj \<longleftrightarrow> k \<in> set (map fst obj) \<or> k \<in> set object_prototype_properties"

text \<open>
  What the expression \<open>reactionKey in reactionMap && reactionMap[reactionKey]\<close> can
  evaluate to: \<open>false\<close>, the value stored under an own property, a member inherited
  from the prototype, or \<open>undefined\<close>.
\<close>

datatype js_value = JSUndefined | JSFalse | JSValue json | JSInherited string

definition js_member :: "(string \<times> json) list \<Rightarrow> string \<Rightarrow> js_value" where
  "js_member obj k =
     (case map_of obj k of
        Some v \<Rightarrow> JSValue v
      | None \<Rightarrow> if k \<in> set object_prototype_properties then JSInherited k else JSUndefined)"

subsection \<open>The annotation and its schema\<close>

definition REACTION_ANNOTATION_KEY :: string where
  "REACTION_ANNOTATION_KEY = ''ge.applied-langua.ge.draupnir.reaction_handler''"

text \<open>
  The decoded annotation is the object under the annotation key, as it is in the
  content: the schema has no transformation, so decoding changes no value.
\<close>

record annotation =
  reaction_map :: "(string \<times> json) list"
  name :: string
  additional_context :: "json option"

text \<open>
  \<open>Value.Decode\<close> is a function of the protection suite, and \<open>handleEvent\<close> takes
  the decoder as a parameter. \<open>Decode_ReactionAnnotatedContent\<close> is the decoder of
  the examples, the schema \<open>ReactionAnnotatedContent\<close> of the source as the validator
  of the schema library reads it: an object that holds under the annotation key an
  object with a \<open>reaction_map\<close> that is a record of strings, a \<open>name\<close> that is a
  string and an optional \<open>additional_context\<close> of any shape. In a record the
  validator tests the value of every key that matches the pattern of
  \<open>Type.String()\<close>, which is the regular expression \<open>^(.*)$\<close>. The dot matches no
  line terminator (U+000A, U+000D, U+2028, U+2029), so the value under a key that
  holds one is not tested.
\<close>

fun has_line_terminator :: "string \<Rightarrow> bool" where
  "has_line_terminator [] = False"
| "has_line_terminator (c # cs) =
     (c = CHR 0x0A \<or> c = CHR 0x0D
      \<or> (c = CHR 0xE2 \<and> (take 2 cs = [CHR 0x80, CHR 0xA8] \<or> take 2 cs = [CHR 0x80, CHR 0xA9]))
      \<or> has_line_terminator cs)"

fun is_JString :: "json \<Rightarrow> bool" where
  "is_JString (JString _) = True"
| "is_JString _ = False"

definition record_of_strings :: "(string \<times> json) list \<Rightarrow> bool" where
  "record_of_strings ps = list_all (\<lambda>(k, v). has_line_terminator k \<or> is_JString v) ps"

definition DecodeException :: action_error where
  "DecodeException = ActionError ''DecodeException''"

definition Decode_ReactionAnnotatedContent ::
  "(string \<times> json) list \<Rightarrow> annotation action_result" where
  "Decode_ReactionAnnotatedContent c =
     (case map_of c REACTION_ANNOTATION_KEY of
        Some (JObject ann) \<Rightarrow>
          (case (map_of ann ''reaction_map'', map_of ann ''name'') of
             (Some (JObject rm), Some (JString n)) \<Rightarrow>
               (if record_of_strings rm
                then Ok \<lparr>reaction_map = rm, name = n,
                         additional_context = map_of ann ''additional_context''\<rparr>
                else Err DecodeException)
           | _ \<Rightarrow> Err DecodeException)
      | _ \<Rightarrow> Err DecodeException)"

subsection \<open>The client platform and the trace of a run\<close>

text \<open>
  The capabilities of the client platform answer from a state of the outside world
  \<open>'w\<close> and return the next one. The enumeration of relations is given by the events
  it hands to the callback, in order, and the result it ends with.
\<close>

record 'w client_platform =
  getEvent :: "string \<Rightarrow> string \<Rightarrow> 'w \<Rightarrow> room_event action_result \<times> 'w"
  sendReaction :: "string \<Rightarrow> string \<Rightarrow> string \<Rightarrow> 'w \<Rightarrow> string action_result \<times> 'w"
  forEachRelation ::
    "string \<Rightarrow> string \<Rightarrow> string \<Rightarrow> string \<Rightarrow> 'w \<Rightarrow> (room_event list \<times> unit action_result) \<times> 'w"
  redactEvent :: "string \<Rightarrow> string \<Rightarrow> string option \<Rightarrow> 'w \<Rightarrow> unit action_result \<times> 'w"

text \<open>
  Everything a run does to the outside: each call of the platform with its answer, each
  line of the log, each \<open>emit\<close> with its arguments. The last argument of \<open>Emit\<close> is
  the value the source passes as \<open>annotatedEvent\<close>, which is the result of \<open>getEvent\<close>.
\<close>

datatype effect =
    GetEvent string string "room_event action_result"
  | SendReaction string string string "string action_result"
  | ForEachRelation string string string string "unit action_result"
  | RedactEvent string string "string option" "unit action_result"
  | LogError string action_error
  | LogInfo string
  | Emit string string js_value "json option" "(string \<times> json) list"
      "room_event action_result"

record 'w matrix_reaction_handler =
  roomID :: string
  clientUserID :: string
  clientPlatform :: "'w client_platform"

section \<open>handleEvent\<close>

text \<open>
  \<open>Value.Check(ReactionEvent, event)\<close> tests the event against a schema of the
  protection suite; the test is the parameter \<open>isReactionEvent\<close>. It narrows
  \<open>m.relates_to\<close> to an object or \<open>undefined\<close>. The parameter \<open>decode\<close> is
  \<open>Value.Decode\<close> with the schema \<open>ReactionAnnotatedContent\<close>.
\<close>

definition handleEvent ::
  "(room_event \<Rightarrow> bool) \<Rightarrow> ((string \<times> json) list \<Rightarrow> annotation action_result)
     \<Rightarrow> 'w matrix_reaction_handler \<Rightarrow> string \<Rightarrow> room_event \<Rightarrow> 'w
     \<Rightarrow> effect list \<times> 'w" where
  "handleEvent isReactionEvent decode this roomID' event w =
     (if roomID' \<noteq> roomID this then ([], w)
      else if sender event = clientUserID this then ([], w)
      else if \<not> isReactionEvent event then ([], w)
      else
        (case map_of (content event) ''m.relates_to'' of
           None \<Rightarrow> ([], w)
         | Some relatesTo \<Rightarrow>
             (case (js_prop relatesTo ''event_id'', js_prop relatesTo ''key'') of
                (Some (JString relatedEventId), Some (JString reactionKey)) \<Rightarrow>
                  (case getEvent (clientPlatform this) roomID' relatedEventId w of
                     (Err e, w') \<Rightarrow>
                       ([GetEvent roomID' relatedEventId (Err e),
                         LogError ''Unable to get annotated event'' e], w')
                   | (Ok annotated, w') \<Rightarrow>
                       (if \<not> js_in REACTION_ANNOTATION_KEY (content annotated)
                        then ([GetEvent roomID' relatedEventId (Ok annotated)], w')
                        else
                          (case decode (content annotated) of
                             Err e \<Rightarrow>
                               ([GetEvent roomID' relatedEventId (Ok annotated),
                                 LogError
                                   (''Unable to decode the annotation on an annotated event that was reacted to ''
                                      @ relatedEventId @ '' in '' @ roomID') e], w')
                           | Ok decodedAnnotation \<Rightarrow>
                               (let reactionMap = reaction_map decodedAnnotation;
                                    listenerName = name decodedAnnotation;
                                    association =
                                      (if js_in reactionKey reactionMap
                                       then js_member reactionMap reactionKey
                                       else JSFalse)
                                in if association = JSUndefined
                                   then
                                     ([GetEvent roomID' relatedEventId (Ok annotated),
                                       LogInfo
                                         (''There wasn't a defined key for '' @ reactionKey
                                            @ '' on event '' @ relatedEventId @ '' in ''
                                            @ roomID')], w')
                                   else
                                     ([GetEvent roomID' relatedEventId (Ok annotated),
                                       Emit listenerName reactionKey association
                                         (additional_context decodedAnnotation)
                                         reactionMap (Ok annotated)], w')))))
              | _ \<Rightarrow> ([], w))))"

section \<open>The prompt lifecycle\<close>

subsection \<open>addReactionsToEvent\<close>

text \<open>
  A \<open>Map\<close> of the source is the list of its entries in insertion order, which is the
  order its \<open>keys()\<close> iterate in. The loop sends the keys one after the other and
  leaves at the first send that fails, returning the failed result.
\<close>

fun addReactionsLoop ::
  "'w matrix_reaction_handler \<Rightarrow> string \<Rightarrow> string \<Rightarrow> string list \<Rightarrow> 'w
     \<Rightarrow> unit action_result \<times> effect list \<times> 'w" where
  "addReactionsLoop this room ev [] w = (Ok (), [], w)"
| "addReactionsLoop this room ev (key # keys) w =
     (case sendReaction (clientPlatform this) room ev key w of
        (Err e, w') \<Rightarrow>
          (Err e,
           [SendReaction room ev key (Err e),
            LogError (''Could not add reaction to event '' @ ev) e], w')
      | (Ok sent, w') \<Rightarrow>
          (case addReactionsLoop this room ev keys w' of
             (result, effects, w'') \<Rightarrow>
               (result, SendReaction room ev key (Ok sent) # effects, w'')))"

definition addReactionsToEvent ::
  "'w matrix_reaction_handler \<Rightarrow> string \<Rightarrow> string \<Rightarrow> (string \<times> string) list \<Rightarrow> 'w
     \<Rightarrow> unit action_result \<times> effect list \<times> 'w" where
  "addReactionsToEvent this room ev reactionMap w =
     addReactionsLoop this room ev (map fst reactionMap) w"

text \<open>
  What the platform answers when the keys are sent in turn, each send from the world
  that the send before has left: the answers and the worlds after them. It is the
  measure that the runs of \<open>addReactionsToEvent\<close> are held against.
\<close>

fun send_in_turn ::
  "'w client_platform \<Rightarrow> string \<Rightarrow> string \<Rightarrow> string list \<Rightarrow> 'w
     \<Rightarrow> (string action_result \<times> 'w) list" where
  "send_in_turn platform room ev [] w = []"
| "send_in_turn platform room ev (key # keys) w =
     (case sendReaction platform room ev key w of
        (answer, w') \<Rightarrow> (answer, w') # send_in_turn platform room ev keys w')"

subsection \<open>completePrompt\<close>

text \<open>
  The two string literals that the callback compares the key of a reaction with, byte
  for byte as the source file holds them: the characters U+201A U+00FA U+00D6 and
  U+201A U+00F9 U+00E5.
\<close>

definition completed_key_literal :: string where
  "completed_key_literal = [CHR 0xE2, CHR 0x80, CHR 0x9A, CHR 0xC3, CHR 0xBA, CHR 0xC3, CHR 0x96]"

definition failed_key_literal :: string where
  "failed_key_literal = [CHR 0xE2, CHR 0x80, CHR 0x9A, CHR 0xC3, CHR 0xB9, CHR 0xC3, CHR 0xA5]"

text \<open>\<open>event.content?.["m.relates_to"]?.key\<close>\<close>

definition relation_key :: "room_event \<Rightarrow> json option" where
  "relation_key event =
     (case map_of (content event) ''m.relates_to'' of
        None \<Rightarrow> None
      | Some relatesTo \<Rightarrow> js_prop relatesTo ''key'')"

text \<open>
  The callback of the enumeration. The redaction is started and its result is dropped:
  nothing of the callback waits for it or reads it.
\<close>

definition forEachCB ::
  "'w matrix_reaction_handler \<Rightarrow> string \<Rightarrow> string option \<Rightarrow> room_event \<Rightarrow> 'w
     \<Rightarrow> effect list \<times> 'w" where
  "forEachCB this room reason event w =
     (let key = relation_key event
      in if key = Some (JString completed_key_literal) \<or> key = Some (JString failed_key_literal)
         then ([], w)
         else
           (case redactEvent (clientPlatform this) room (event_id event) reason w of
              (redacted, w') \<Rightarrow> ([RedactEvent room (event_id event) reason redacted], w')))"

fun forEachCB_all ::
  "'w matrix_reaction_handler \<Rightarrow> string \<Rightarrow> string option \<Rightarrow> room_event list \<Rightarrow> 'w
     \<Rightarrow> effect list \<times> 'w" where
  "forEachCB_all this room reason [] w = ([], w)"
| "forEachCB_all this room reason (event # events) w =
     (case forEachCB this room reason event w of
        (effects, w') \<Rightarrow>
          (case forEachCB_all this room reason events w' of
             (effects', w'') \<Rightarrow> (effects @ effects', w'')))"

definition completePrompt ::
  "'w matrix_reaction_handler \<Rightarrow> string \<Rightarrow> string \<Rightarrow> string option \<Rightarrow> 'w
     \<Rightarrow> unit action_result \<times> effect list \<times> 'w" where
  "completePrompt this room ev reason w =
     (case forEachRelation (clientPlatform this) room ev ''m.annotation'' ''m.reaction'' w of
        ((events, result), w') \<Rightarrow>
          (case forEachCB_all this room reason events w' of
             (effects, w'') \<Rightarrow>
               (result,
                ForEachRelation room ev ''m.annotation'' ''m.reaction'' result # effects,
                w'')))"

subsection \<open>cancelPrompt\<close>

text \<open>
  The literal in front of the sender, as the source file holds it: the characters
  U+F8FF U+00FC U+00F6 U+00B4 and the words that follow.
\<close>

definition cancelled_by_literal :: string where
  "cancelled_by_literal =
     [CHR 0xEF, CHR 0xA3, CHR 0xBF, CHR 0xC3, CHR 0xBC, CHR 0xC3, CHR 0xB6, CHR 0xC2, CHR 0xB4]
       @ '' Cancelled by ''"

definition cancelPrompt ::
  "'w matrix_reaction_handler \<Rightarrow> room_event \<Rightarrow> string option \<Rightarrow> 'w
     \<Rightarrow> unit action_result \<times> effect list \<times> 'w" where
  "cancelPrompt this promptEvent cancelReason w =
     (case completePrompt this (room_id promptEvent) (event_id promptEvent)
             (Some (case cancelReason of None \<Rightarrow> ''prompt cancelled'' | Some r \<Rightarrow> r)) w of
        (completeResult, effects, w') \<Rightarrow>
          (if isError completeResult then (completeResult, effects, w')
           else
             (case sendReaction (clientPlatform this) (room_id promptEvent)
                     (event_id promptEvent) (cancelled_by_literal @ sender promptEvent) w' of
                (reactionResult, w'') \<Rightarrow>
                  (completeResult,
                   effects
                     @ [SendReaction (room_id promptEvent) (event_id promptEvent)
                          (cancelled_by_literal @ sender promptEvent) reactionResult]
                     @ (case reactionResult of
                          Err e \<Rightarrow>
                            [LogError
                               (''Could not send cancelled reaction event for prompt ''
                                  @ event_id promptEvent @ '' in '' @ room_id promptEvent) e]
                        | Ok _ \<Rightarrow> []),
                   w''))))"

subsection \<open>reactToEventWithResult\<close>

text \<open>
  The marks that the adaptor itself puts on an event once a command has run: U+2705 for
  a success and U+274C for a failure.
\<close>

definition check_mark :: string where
  "check_mark = [CHR 0xE2, CHR 0x9C, CHR 0x85]"

definition cross_mark :: string where
  "cross_mark = [CHR 0xE2, CHR 0x9D, CHR 0x8C]"

definition reactToEventWithResult ::
  "'w client_platform \<Rightarrow> room_event \<Rightarrow> 'a action_result \<Rightarrow> 'w
     \<Rightarrow> string action_result \<times> effect list \<times> 'w" where
  "reactToEventWithResult roomReactionSender event result w =
     (let emote = (if isOk result then check_mark else cross_mark)
      in case sendReaction roomReactionSender (room_id event) (event_id event) emote w of
           (sent, w') \<Rightarrow>
             (sent, [SendReaction (room_id event) (event_id event) emote sent], w'))"

section \<open>The symbol generator\<close>

subsection \<open>Numbers and their strings\<close>

text \<open>
  The argument of \<open>numberToEmoji\<close> is a \<open>number\<close>, a double; the claims are about
  the non-negative integers among them, and such a number is held here by its value, a
  natural number. \<open>digits\<close> are the decimal digits of a natural number, most
  significant first, and \<open>decimal\<close> writes them as characters.
\<close>

definition digit_char :: "nat \<Rightarrow> char" where
  "digit_char d = ''0123456789'' ! d"

fun digits :: "nat \<Rightarrow> nat list" where
  "digits n = (if n < 10 then [n] else digits (n div 10) @ [n mod 10])"

declare digits.simps [simp del]

definition decimal :: "nat \<Rightarrow> string" where
  "decimal n = map digit_char (digits n)"

text \<open>
  The double nearest to a natural number, ties going to the even significand of 53
  bits. The natural numbers that are doubles are the fixed points of \<open>js_round\<close>;
  every natural number below \<open>2 ^ 53\<close> is one.
\<close>

fun bit_length :: "nat \<Rightarrow> nat" where
  "bit_length n = (if n = 0 then 0 else Suc (bit_length (n div 2)))"

declare bit_length.simps [simp del]

definition js_round :: "nat \<Rightarrow> nat" where
  "js_round y =
     (if y < 2 ^ 53 then y
      else
        (let e = bit_length y - 53; q = y div 2 ^ e; r = y mod 2 ^ e; half = 2 ^ (e - 1)
         in if r < half \<or> (r = half \<and> even q) then q * 2 ^ e else (q + 1) * 2 ^ e))"

text \<open>
  \<open>number.toString()\<close> on a non-negative integer \<open>x\<close>. The language takes the
  integers \<open>n\<close>, \<open>k\<close> and \<open>s\<close> with \<open>s\<close> of \<open>k\<close> digits and \<open>k\<close> as small as
  possible such that \<open>s * 10 ^ (n - k)\<close> rounds to \<open>x\<close>, the nearest to \<open>x\<close> when
  there are several. Up to \<open>n = 21\<close> the string is the digits of \<open>s\<close> followed by
  \<open>n - k\<close> zeros; beyond, it is the first digit of \<open>s\<close>, a point and the other digits
  when there are any, and the exponent \<open>e+\<close> with \<open>n - 1\<close> in decimal.

  \<open>candidate x n k\<close> is the \<open>s\<close> of \<open>k\<close> digits for an \<open>x\<close> of \<open>n\<close> digits, when
  there is one: only the two multiples of \<open>10 ^ (n - k)\<close> around \<open>x\<close> can round to
  \<open>x\<close> and be nearest. \<open>shortest\<close> tries \<open>k = 1, 2, \<dots>\<close> in turn; with all \<open>n\<close>
  digits \<open>s\<close> is \<open>x\<close> itself. The one number of more digits than \<open>x\<close> that can round
  to \<open>x\<close> with a single digit is the power of ten above it.
\<close>

definition candidate :: "nat \<Rightarrow> nat \<Rightarrow> nat \<Rightarrow> nat option" where
  "candidate x n k =
     (let unit = 10 ^ (n - k); lo = x div unit; hi = lo + 1;
          lo_fits = (js_round (lo * unit) = x);
          hi_fits = (hi < 10 ^ k \<and> js_round (hi * unit) = x)
      in if lo_fits \<and> hi_fits
         then
           (if x - lo * unit < hi * unit - x then Some lo
            else if hi * unit - x < x - lo * unit then Some hi
            else Some (if even lo then lo else hi))
         else if lo_fits then Some lo
         else if hi_fits then Some hi
         else None)"

function shortest :: "nat \<Rightarrow> nat \<Rightarrow> nat \<Rightarrow> nat \<times> nat" where
  "shortest x n k =
     (if n \<le> k then (x, n)
      else (case candidate x n k of Some s \<Rightarrow> (s, k) | None \<Rightarrow> shortest x n (Suc k)))"
  by pat_completeness auto
termination
  by (relation "measure (\<lambda>(x, n, k). n - k)") auto

declare shortest.simps [simp del]

definition number_toString :: "nat \<Rightarrow> string" where
  "number_toString x =
     (if x = 0 then ''0''
      else
        (let len = length (digits x);
             (s, k, n) =
               (if js_round (10 ^ len) = x then (1, 1, len + 1)
                else (case shortest x len 1 of (s, k) \<Rightarrow> (s, k, len)))
         in if n \<le> 21 then decimal s @ replicate (n - k) CHR ''0''
            else if k = 1 then decimal s @ ''e+'' @ decimal (n - 1)
            else take 1 (decimal s) @ ''.'' @ drop 1 (decimal s) @ ''e+'' @ decimal (n - 1)))"

subsection \<open>numberToEmoji and createItemizedReactionMap\<close>

text \<open>
  Each of the ten replacement strings of the source is the digit itself followed by the
  same suffix. \<open>numberToEmoji_with\<close> is the chain of the ten \<open>replace\<close> calls for a
  given suffix, and \<open>symbol suffix d\<close> is its replacement string for the digit \<open>d\<close>.
  The pattern of each \<open>replace\<close> is one character with the flag \<open>g\<close>, and no
  replacement string has a \<open>$\<close>.
\<close>

definition symbol :: "string \<Rightarrow> nat \<Rightarrow> string" where
  "symbol suffix d = digit_char d # suffix"

definition replace_all :: "char \<Rightarrow> string \<Rightarrow> string \<Rightarrow> string" where
  "replace_all c replacement s = concat (map (\<lambda>x. if x = c then replacement else [x]) s)"

definition numberToEmoji_with :: "string \<Rightarrow> nat \<Rightarrow> string" where
  "numberToEmoji_with suffix number =
     (let key = number_toString number
      in replace_all CHR ''9'' (CHR ''9'' # suffix)
        (replace_all CHR ''8'' (CHR ''8'' # suffix)
        (replace_all CHR ''7'' (CHR ''7'' # suffix)
        (replace_all CHR ''6'' (CHR ''6'' # suffix)
        (replace_all CHR ''5'' (CHR ''5'' # suffix)
        (replace_all CHR ''4'' (CHR ''4'' # suffix)
        (replace_all CHR ''3'' (CHR ''3'' # suffix)
        (replace_all CHR ''2'' (CHR ''2'' # suffix)
        (replace_all CHR ''1'' (CHR ''1'' # suffix)
        (replace_all CHR ''0'' (CHR ''0'' # suffix) key))))))))))"

text \<open>
  The suffix of a keycap symbol is U+FE0F U+20E3. The suffix that the ten literals of
  the source file hold is another one, fourteen bytes that are the characters
  U+00D4 U+220F U+00E8 U+201A U+00C9 U+00A3; \<open>numberToEmoji\<close> is the chain with
  that suffix.
\<close>

definition keycap_suffix :: string where
  "keycap_suffix = [CHR 0xEF, CHR 0xB8, CHR 0x8F, CHR 0xE2, CHR 0x83, CHR 0xA3]"

definition source_suffix :: string where
  "source_suffix =
     [CHR 0xC3, CHR 0x94, CHR 0xE2, CHR 0x88, CHR 0x8F, CHR 0xC3, CHR 0xA8,
      CHR 0xE2, CHR 0x80, CHR 0x9A, CHR 0xC3, CHR 0x89, CHR 0xC2, CHR 0xA3]"

definition numberToEmoji :: "nat \<Rightarrow> string" where
  "numberToEmoji number = numberToEmoji_with source_suffix number"




subsection \<open>Notions of the proofs\<close>


definition digit_chars :: "char set" where
  "digit_chars = set ''0123456789''"

definition expand :: "string \<Rightarrow> char set \<Rightarrow> string \<Rightarrow> string" where
  "expand suffix D s = concat (map (\<lambda>x. if x \<in> D then x # suffix else [x]) s)"

section \<open>Example rooms\<close>

text \<open>
  A prompt that asks for a vote, a message that is no prompt, and a prompt whose
  annotation does not fit the schema: its reaction map holds a number.
\<close>

definition vote_prompt :: room_event where
  "vote_prompt =
     \<lparr>event_id = ''$prompt'', room_id = ''!room'', sender = ''@bot:example.org'',
      content =
        [(''body'', JString ''Vote''),
         (REACTION_ANNOTATION_KEY,
          JObject
            [(''reaction_map'',
              JObject [(check_mark, JString ''accept''), (cross_mark, JString ''reject'')]),
             (''name'', JString ''onVote'')])]\<rparr>"

definition plain_message :: room_event where
  "plain_message =
     \<lparr>event_id = ''$plain'', room_id = ''!room'', sender = ''@carol:example.org'',
      content = [(''msgtype'', JString ''m.text''), (''body'', JString ''hello'')]\<rparr>"

definition broken_prompt :: room_event where
  "broken_prompt =
     \<lparr>event_id = ''$broken'', room_id = ''!room'', sender = ''@bot:example.org'',
      content =
        [(REACTION_ANNOTATION_KEY,
          JObject
            [(''reaction_map'', JObject [(check_mark, JNumber 1)]),
             (''name'', JString ''onVote'')])]\<rparr>"

definition reaction_to :: "string \<Rightarrow> string \<Rightarrow> string \<Rightarrow> string \<Rightarrow> room_event" where
  "reaction_to reaction who target key =
     \<lparr>event_id = reaction, room_id = ''!room'', sender = who,
      content =
        [(''m.relates_to'',
          JObject
            [(''rel_type'', JString ''m.annotation''), (''event_id'', JString target),
             (''key'', JString key)])]\<rparr>"

text \<open>
  A platform over a world without state. It knows the three events above, accepts every
  reaction, enumerates the given relations and answers each redaction with the given
  result.
\<close>

definition example_store :: "string \<Rightarrow> room_event action_result" where
  "example_store ev =
     (if ev = ''$prompt'' then Ok vote_prompt
      else if ev = ''$plain'' then Ok plain_message
      else if ev = ''$broken'' then Ok broken_prompt
      else Err (ActionError ''M_NOT_FOUND''))"

definition example_platform ::
  "room_event list \<Rightarrow> unit action_result \<Rightarrow> unit client_platform" where
  "example_platform relations redacted =
     \<lparr>getEvent = (\<lambda>room ev w. (example_store ev, w)),
      sendReaction = (\<lambda>room ev key w. (Ok ''$sent'', w)),
      forEachRelation = (\<lambda>room ev relationType eventType w. ((relations, Ok ()), w)),
      redactEvent = (\<lambda>room ev reason w. (redacted, w))\<rparr>"

definition example_handler ::
  "room_event list \<Rightarrow> unit action_result \<Rightarrow> unit matrix_reaction_handler" where
  "example_handler relations redacted =
     \<lparr>roomID = ''!room'', clientUserID = ''@bot:example.org'',
      clientPlatform = example_platform relations redacted\<rparr>"

text \<open>
  A platform whose world counts the reactions sent and that refuses the second one.
\<close>

definition limited_platform :: "nat client_platform" where
  "limited_platform =
     \<lparr>getEvent = (\<lambda>room ev sent. (example_store ev, sent)),
      sendReaction =
        (\<lambda>room ev key sent.
           (if sent = 1 then Err (ActionError ''M_LIMIT_EXCEEDED'') else Ok ''$sent'',
            Suc sent)),
      forEachRelation = (\<lambda>room ev relationType eventType sent. (([], Ok ()), sent)),
      redactEvent = (\<lambda>room ev reason sent. (Ok (), sent))\<rparr>"

definition limited_handler :: "nat matrix_reaction_handler" where
  "limited_handler =
     \<lparr>roomID = ''!room'', clientUserID = ''@bot:example.org'',
      clientPlatform = limited_platform\<rparr>"

fun isSendReaction :: "effect \<Rightarrow> bool" where
  "isSendReaction (SendReaction _ _ _ _) = True"
| "isSendReaction _ = False"

fun isGetEvent :: "effect \<Rightarrow> bool" where
  "isGetEvent (GetEvent _ _ _) = True"
| "isGetEvent _ = False"

fun isEmit :: "effect \<Rightarrow> bool" where
  "isEmit (Emit _ _ _ _ _ _) = True"
| "isEmit _ = False"

section \<open>Properties of handleEvent\<close>

lemmas example_defs =
  example_handler_def example_platform_def example_store_def reaction_to_def
  vote_prompt_def plain_message_def broken_prompt_def
  REACTION_ANNOTATION_KEY_def object_prototype_properties_def check_mark_def cross_mark_def

subsection \<open>The relevance filter\<close>

text \<open>
  Claim C3. An event from another room, an event that the client itself sent, and an
  event that is no reaction with a relation carrying a string \<open>key\<close> and a string
  \<open>event_id\<close> all end the run at once: the trace is empty, so nothing was fetched,
  emitted or logged, and the outside world is the one the run started in.
\<close>

theorem handleEvent_irrelevant_noop:
  assumes "roomID' \<noteq> roomID this \<or> sender event = clientUserID this
     \<or> \<not> isReactionEvent event
     \<or> (\<forall>relatesTo target key.
           map_of (content event) ''m.relates_to'' = Some relatesTo \<longrightarrow>
           \<not> (js_prop relatesTo ''event_id'' = Some (JString target)
               \<and> js_prop relatesTo ''key'' = Some (JString key)))"
  shows "handleEvent isReactionEvent decode this roomID' event w = ([], w)"
  using assms
  by (auto simp: handleEvent_def split: option.splits json.splits)

theorem handleEvent_irrelevant_noop_witness:
  "sender (reaction_to ''$reaction'' ''@bot:example.org'' ''$prompt'' check_mark)
     = clientUserID (example_handler [] (Ok ()))
   \<and> handleEvent (\<lambda>_. True) Decode_ReactionAnnotatedContent
       (example_handler [] (Ok ())) ''!room''
       (reaction_to ''$reaction'' ''@bot:example.org'' ''$prompt'' check_mark) () = ([], ())
   \<and> ''!elsewhere'' \<noteq> roomID (example_handler [] (Ok ()))
   \<and> handleEvent (\<lambda>_. True) Decode_ReactionAnnotatedContent
       (example_handler [] (Ok ())) ''!elsewhere''
       (reaction_to ''$reaction'' ''@alice:example.org'' ''$prompt'' check_mark) () = ([], ())
   \<and> map_of (content plain_message) ''m.relates_to'' = None
   \<and> handleEvent (\<lambda>_. True) Decode_ReactionAnnotatedContent
       (example_handler [] (Ok ())) ''!room'' plain_message ()
       = ([], ())"
proof -
  have self: "sender (reaction_to ''$reaction'' ''@bot:example.org'' ''$prompt'' check_mark)
      = clientUserID (example_handler [] (Ok ()))"
    by (simp add: example_defs)
  have room: "''!elsewhere'' \<noteq> roomID (example_handler [] (Ok ()))"
    by (simp add: example_defs)
  have shape: "map_of (content plain_message) ''m.relates_to'' = None"
    by (simp add: example_defs)
  show ?thesis
    using self room shape
      handleEvent_irrelevant_noop [of "''!room''" "example_handler [] (Ok ())"
        "reaction_to ''$reaction'' ''@bot:example.org'' ''$prompt'' check_mark" "\<lambda>_. True"
        Decode_ReactionAnnotatedContent "()"]
      handleEvent_irrelevant_noop [of "''!elsewhere''" "example_handler [] (Ok ())"
        "reaction_to ''$reaction'' ''@alice:example.org'' ''$prompt'' check_mark" "\<lambda>_. True"
        Decode_ReactionAnnotatedContent "()"]
      handleEvent_irrelevant_noop [of "''!room''" "example_handler [] (Ok ())"
        plain_message "\<lambda>_. True" Decode_ReactionAnnotatedContent "()"]
    by simp
qed

subsection \<open>Targets that carry no usable annotation\<close>



text \<open>
  The decoder of the examples accepts a reaction map whose only value that is no string
  stands under a key with a line feed, and refuses the same value under a key without.
\<close>

lemma Decode_skips_keys_with_line_terminator:
  "Decode_ReactionAnnotatedContent
     [(REACTION_ANNOTATION_KEY,
       JObject [(''reaction_map'', JObject [([CHR ''a'', CHR 0x0A, CHR ''b''], JNumber 1)]),
                (''name'', JString ''onVote'')])]
     = Ok \<lparr>reaction_map = [([CHR ''a'', CHR 0x0A, CHR ''b''], JNumber 1)], name = ''onVote'',
           additional_context = None\<rparr>
   \<and> Decode_ReactionAnnotatedContent
     [(REACTION_ANNOTATION_KEY,
       JObject [(''reaction_map'', JObject [(''ab'', JNumber 1)]),
                (''name'', JString ''onVote'')])]
     = Err DecodeException"
  by (simp add: Decode_ReactionAnnotatedContent_def record_of_strings_def)

subsection \<open>The lookup of the reaction symbol\<close>

text \<open>
  The association is \<open>reactionKey in reactionMap && reactionMap[reactionKey]\<close>. When the
  symbol is in the map the value is the member found, which is never \<open>undefined\<close>;
  when it is not, the value is \<open>false\<close>. The test \<open>association === undefined\<close>
  therefore never holds, and no run writes the informational line of the log.
\<close>

lemma association_defined:
  "(if js_in key reactionMap then js_member reactionMap key else JSFalse) \<noteq> JSUndefined"
  by (auto simp: js_in_def js_member_def split: option.splits dest: map_of_eq_None_iff [THEN iffD1])

lemma handleEvent_never_logs_info:
  "LogInfo message \<notin> set (fst (handleEvent isReactionEvent decode this roomID' event w))"
  using association_defined
  by (auto simp: handleEvent_def Let_def
      split: option.splits json.splits prod.splits action_result.splits)

lemma handleEvent_one_fetch_one_emit:
  "length (filter isGetEvent (fst (handleEvent isReactionEvent decode this roomID' event w))) \<le> 1
   \<and> length (filter isEmit (fst (handleEvent isReactionEvent decode this roomID' event w))) \<le> 1"
  by (auto simp: handleEvent_def Let_def
      split: option.splits json.splits prod.splits action_result.splits)

text \<open>
  A reaction whose symbol is an own key of the decoded reaction map is emitted once,
  under the name of the annotation, with the symbol, the value stored for it, the
  additional context, the entries of the reaction map and the result of the fetch.
\<close>

lemma handleEvent_hit:
  assumes "roomID' = roomID this" and "sender event \<noteq> clientUserID this"
    and "isReactionEvent event"
    and "map_of (content event) ''m.relates_to'' = Some relatesTo"
    and "js_prop relatesTo ''event_id'' = Some (JString target)"
    and "js_prop relatesTo ''key'' = Some (JString key)"
    and "getEvent (clientPlatform this) roomID' target w = (Ok annotated, w')"
    and "REACTION_ANNOTATION_KEY \<in> fst ` set (content annotated)"
    and "decode (content annotated) = Ok decoded"
    and "map_of (reaction_map decoded) key = Some item"
  shows "handleEvent isReactionEvent decode this roomID' event w
     = ([GetEvent roomID' target (Ok annotated),
         Emit (name decoded) key (JSValue item) (additional_context decoded)
           (reaction_map decoded) (Ok annotated)], w')"
proof -
  have present: "js_in REACTION_ANNOTATION_KEY (content annotated)"
    using assms(8) by (simp add: js_in_def)
  have "key \<in> fst ` set (reaction_map decoded)"
    using assms(10) by (metis map_of_eq_None_iff option.distinct(1))
  then have "js_in key (reaction_map decoded)"
    by (simp add: js_in_def)
  with present assms show ?thesis
    by (simp add: handleEvent_def js_member_def)
qed

text \<open>
  A reaction whose symbol the operator \<open>in\<close> does not find in the decoded reaction map
  is emitted as well, with the association \<open>false\<close>.
\<close>

lemma handleEvent_miss:
  assumes "roomID' = roomID this" and "sender event \<noteq> clientUserID this"
    and "isReactionEvent event"
    and "map_of (content event) ''m.relates_to'' = Some relatesTo"
    and "js_prop relatesTo ''event_id'' = Some (JString target)"
    and "js_prop relatesTo ''key'' = Some (JString key)"
    and "getEvent (clientPlatform this) roomID' target w = (Ok annotated, w')"
    and "REACTION_ANNOTATION_KEY \<in> fst ` set (content annotated)"
    and "decode (content annotated) = Ok decoded"
    and "\<not> js_in key (reaction_map decoded)"
  shows "handleEvent isReactionEvent decode this roomID' event w
     = ([GetEvent roomID' target (Ok annotated),
         Emit (name decoded) key JSFalse (additional_context decoded)
           (reaction_map decoded) (Ok annotated)], w')"
proof -
  have "js_in REACTION_ANNOTATION_KEY (content annotated)"
    using assms(8) by (simp add: js_in_def)
  with assms show ?thesis
    by (simp add: handleEvent_def)
qed

text \<open>
  Claim C1. The claim reads: when the reaction symbol is no key of the decoded reaction
  map, nothing is dispatched and the interaction is only logged at informational
  level. The theorem runs the source on the vote prompt, whose map has the keys U+2705
  and U+274C, and a reaction with the symbol \<open>maybe\<close>: the source logs nothing and
  calls \<open>emit\<close> under the name \<open>onVote\<close> with the association \<open>false\<close>.
\<close>

theorem handleEvent_unmatched_symbol_emits:
  "handleEvent (\<lambda>_. True) Decode_ReactionAnnotatedContent
       (example_handler [] (Ok ())) ''!room''
       (reaction_to ''$reaction'' ''@alice:example.org'' ''$prompt'' ''maybe'') ()
     = ([GetEvent ''!room'' ''$prompt'' (Ok vote_prompt),
         Emit ''onVote'' ''maybe'' JSFalse None
           [(check_mark, JString ''accept''), (cross_mark, JString ''reject'')]
           (Ok vote_prompt)], ())"
  by (simp add: handleEvent_def Let_def js_in_def js_member_def
      Decode_ReactionAnnotatedContent_def record_of_strings_def example_defs)

text \<open>
  Claim C2. The claim reads: a reaction whose symbol is a key of the reaction map is
  emitted once under the decoded name with the symbol, the value stored for it, the
  additional context, a copy of the reaction map and the original annotated event.
  The theorem runs the source on the vote prompt and a reaction with the symbol U+2705.
  The name, the symbol, the association \<open>accept\<close>, the context and the entries of the
  map are as claimed; the last argument is \<open>Ok vote_prompt\<close>, the result object that
  \<open>getEvent\<close> returned, and not the event \<open>vote_prompt\<close> that the result holds in
  its field \<open>ok\<close>.
\<close>

theorem handleEvent_vote_passes_result_object:
  "handleEvent (\<lambda>_. True) Decode_ReactionAnnotatedContent
       (example_handler [] (Ok ())) ''!room''
       (reaction_to ''$reaction'' ''@alice:example.org'' ''$prompt'' check_mark) ()
     = ([GetEvent ''!room'' ''$prompt'' (Ok vote_prompt),
         Emit ''onVote'' check_mark (JSValue (JString ''accept'')) None
           [(check_mark, JString ''accept''), (cross_mark, JString ''reject'')]
           (Ok vote_prompt)], ())"
  by (simp add: handleEvent_def Let_def js_in_def js_member_def
      Decode_ReactionAnnotatedContent_def record_of_strings_def example_defs)

text \<open>
  Claim C9. The claim reads: one call fetches at most once and emits at most once, and
  every early exit, the unmatched symbol among them, emits nothing. The bound of one
  fetch and one emit is \<open>handleEvent_one_fetch_one_emit\<close>. The exit for the unmatched
  symbol is never taken (\<open>handleEvent_never_logs_info\<close>): the theorem runs the source
  on the vote prompt and a reaction with the symbol U+1F44D, which is no key of the
  reaction map, and counts one emit.
\<close>

theorem handleEvent_unmatched_symbol_counts_one_emit:
  "length (filter isEmit (fst (handleEvent (\<lambda>_. True) Decode_ReactionAnnotatedContent
       (example_handler [] (Ok ())) ''!room''
       (reaction_to ''$reaction'' ''@alice:example.org'' ''$prompt''
          [CHR 0xF0, CHR 0x9F, CHR 0x91, CHR 0x8D]) ()))) = 1"
  by (simp add: handleEvent_def Let_def js_in_def js_member_def
      Decode_ReactionAnnotatedContent_def record_of_strings_def example_defs)

section \<open>Properties of the prompt lifecycle\<close>

subsection \<open>addReactionsToEvent\<close>

lemma addReactionsLoop_turns:
  "case drop (length (takeWhile (isOk \<circ> fst) (send_in_turn (clientPlatform this) room ev keys w)))
          (send_in_turn (clientPlatform this) room ev keys w) of
     [] \<Rightarrow>
       addReactionsLoop this room ev keys w
         = (Ok (),
            map2 (\<lambda>k turn. SendReaction room ev k (fst turn)) keys
              (send_in_turn (clientPlatform this) room ev keys w),
            last (w # map snd (send_in_turn (clientPlatform this) room ev keys w)))
   | refusal # later \<Rightarrow>
       (\<exists>e. fst refusal = Err e
          \<and> addReactionsLoop this room ev keys w
              = (Err e,
                 map2 (\<lambda>k turn. SendReaction room ev k (fst turn)) keys
                   (takeWhile (isOk \<circ> fst) (send_in_turn (clientPlatform this) room ev keys w)
                      @ [refusal])
                   @ [LogError (''Could not add reaction to event '' @ ev) e],
                 snd refusal))"
proof (induction keys arbitrary: w)
  case Nil
  show ?case by simp
next
  case (Cons key keys)
  obtain answer w1 where send: "sendReaction (clientPlatform this) room ev key w = (answer, w1)"
    by (cases "sendReaction (clientPlatform this) room ev key w")
  let ?turns = "send_in_turn (clientPlatform this) room ev keys w1"
  let ?accepted = "takeWhile (isOk \<circ> fst) ?turns"
  have turns: "send_in_turn (clientPlatform this) room ev (key # keys) w = (answer, w1) # ?turns"
    using send by simp
  show ?case
  proof (cases answer)
    case (Err e)
    have rest: "drop (length (takeWhile (isOk \<circ> fst) ((Err e, w1) # ?turns)))
        ((Err e, w1) # ?turns) = (Err e, w1) # ?turns"
      by simp
    have "addReactionsLoop this room ev (key # keys) w
        = (Err e,
           [SendReaction room ev key (Err e),
            LogError (''Could not add reaction to event '' @ ev) e], w1)"
      using send Err by simp
    then have "\<exists>e'. fst (Err e :: string action_result, w1) = Err e'
        \<and> addReactionsLoop this room ev (key # keys) w
            = (Err e',
               map2 (\<lambda>k turn. SendReaction room ev k (fst turn)) (key # keys)
                 (takeWhile (isOk \<circ> fst) ((Err e, w1) # ?turns) @ [(Err e, w1)])
                 @ [LogError (''Could not add reaction to event '' @ ev) e'],
               snd (Err e :: string action_result, w1))"
      by (intro exI [of _ e]) simp
    then show ?thesis
      unfolding turns Err rest list.case .
  next
    case (Ok sent)
    have rest: "drop (length (takeWhile (isOk \<circ> fst) ((Ok sent, w1) # ?turns)))
        ((Ok sent, w1) # ?turns) = drop (length ?accepted) ?turns"
      by simp
    have loop: "addReactionsLoop this room ev (key # keys) w
        = (case addReactionsLoop this room ev keys w1 of
             (result, effects, w2) \<Rightarrow>
               (result, SendReaction room ev key (Ok sent) # effects, w2))"
      using send Ok by simp
    show ?thesis
    proof (cases "drop (length ?accepted) ?turns")
      case Nil
      from Cons.IH [of w1] have "addReactionsLoop this room ev keys w1
          = (Ok (), map2 (\<lambda>k turn. SendReaction room ev k (fst turn)) keys ?turns,
             last (w1 # map snd ?turns))"
        unfolding Nil list.case .
      then have "addReactionsLoop this room ev (key # keys) w
          = (Ok (),
             map2 (\<lambda>k turn. SendReaction room ev k (fst turn)) (key # keys)
               ((Ok sent, w1) # ?turns),
             last (w # map snd ((Ok sent, w1) # ?turns)))"
        unfolding loop by simp
      then show ?thesis
        unfolding turns Ok rest Nil list.case .
    next
      case (Cons refusal later)
      from Cons.IH [of w1] obtain e where refused: "fst refusal = Err e"
        and run: "addReactionsLoop this room ev keys w1
          = (Err e,
             map2 (\<lambda>k turn. SendReaction room ev k (fst turn)) keys (?accepted @ [refusal])
               @ [LogError (''Could not add reaction to event '' @ ev) e],
             snd refusal)"
        unfolding Cons list.case by blast
      have "\<exists>e'. fst refusal = Err e'
          \<and> addReactionsLoop this room ev (key # keys) w
              = (Err e',
                 map2 (\<lambda>k turn. SendReaction room ev k (fst turn)) (key # keys)
                   (takeWhile (isOk \<circ> fst) ((Ok sent, w1) # ?turns) @ [refusal])
                   @ [LogError (''Could not add reaction to event '' @ ev) e'],
                 snd refusal)"
        unfolding loop by (intro exI [of _ e]) (simp add: refused run)
      then show ?thesis
        unfolding turns Ok rest Cons list.case .
    qed
  qed
qed

text \<open>
  Claim C5. \<open>addReactionsToEvent\<close> sends the keys of the reaction map in their
  iteration order, each send after the answer to the one before. When the platform
  accepts every key, the run has sent every key and returns success. When the platform
  refuses a key after accepting those before it, the run has sent these keys and the
  refused one and nothing later, it returns the failure that the platform gave, the
  world is the one that the refused send left, and no reaction already sent is taken
  back: the trace has the sends, the line of the log and nothing else.
\<close>

theorem addReactionsToEvent_sequential:
  "case drop (length (takeWhile (isOk \<circ> fst)
                 (send_in_turn (clientPlatform this) room ev (map fst reactionMap) w)))
          (send_in_turn (clientPlatform this) room ev (map fst reactionMap) w) of
     [] \<Rightarrow>
       addReactionsToEvent this room ev reactionMap w
         = (Ok (),
            map2 (\<lambda>k turn. SendReaction room ev k (fst turn)) (map fst reactionMap)
              (send_in_turn (clientPlatform this) room ev (map fst reactionMap) w),
            last (w # map snd
                   (send_in_turn (clientPlatform this) room ev (map fst reactionMap) w)))
   | refusal # later \<Rightarrow>
       (\<exists>e. fst refusal = Err e
          \<and> addReactionsToEvent this room ev reactionMap w
              = (Err e,
                 map2 (\<lambda>k turn. SendReaction room ev k (fst turn)) (map fst reactionMap)
                   (takeWhile (isOk \<circ> fst)
                      (send_in_turn (clientPlatform this) room ev (map fst reactionMap) w)
                      @ [refusal])
                   @ [LogError (''Could not add reaction to event '' @ ev) e],
                 snd refusal))"
  unfolding addReactionsToEvent_def by (rule addReactionsLoop_turns)

theorem addReactionsToEvent_sequential_witness:
  "addReactionsToEvent limited_handler ''!room'' ''$prompt''
       [(''1'', ''ban''), (''2'', ''kick''), (''3'', ''ignore'')] 0
     = (Err (ActionError ''M_LIMIT_EXCEEDED''),
        [SendReaction ''!room'' ''$prompt'' ''1'' (Ok ''$sent''),
         SendReaction ''!room'' ''$prompt'' ''2'' (Err (ActionError ''M_LIMIT_EXCEEDED'')),
         LogError ''Could not add reaction to event $prompt'' (ActionError ''M_LIMIT_EXCEEDED'')],
        2)
   \<and> addReactionsToEvent limited_handler ''!room'' ''$prompt'' [(''1'', ''ban'')] 0
     = (Ok (), [SendReaction ''!room'' ''$prompt'' ''1'' (Ok ''$sent'')], 1)"
  using
    addReactionsToEvent_sequential [of limited_handler "''!room''" "''$prompt''"
      "[(''1'', ''ban''), (''2'', ''kick''), (''3'', ''ignore'')]" 0]
    addReactionsToEvent_sequential [of limited_handler "''!room''" "''$prompt''"
      "[(''1'', ''ban'')]" 0]
  by (simp add: limited_handler_def limited_platform_def)

subsection \<open>completePrompt\<close>

lemma forEachCB_all_no_send:
  "forEachCB_all this room reason events w = (effects, w')
     \<Longrightarrow> filter isSendReaction effects = []"
  by (induction events arbitrary: w effects w')
     (auto simp: forEachCB_def Let_def split: prod.splits if_splits)

lemma completePrompt_no_send:
  "completePrompt this room ev reason w = (result, effects, w')
     \<Longrightarrow> filter isSendReaction effects = []"
  by (auto simp: completePrompt_def split: prod.splits dest: forEachCB_all_no_send)

text \<open>
  Every enumerated reaction whose key is neither of the two literals is redacted with
  the given reason, and the literals are not the marks that the adaptor sends.
\<close>

lemma forEachCB_all_redacts:
  assumes "event \<in> set events"
    and "relation_key event \<noteq> Some (JString completed_key_literal)"
    and "relation_key event \<noteq> Some (JString failed_key_literal)"
  shows "\<exists>redacted. RedactEvent room (event_id event) reason redacted
           \<in> set (fst (forEachCB_all this room reason events w))"
  using assms
proof (induction events arbitrary: w)
  case Nil
  then show ?case by simp
next
  case (Cons first events)
  obtain effects w1 where first: "forEachCB this room reason first w = (effects, w1)"
    by (cases "forEachCB this room reason first w")
  obtain effects' w2 where rest: "forEachCB_all this room reason events w1 = (effects', w2)"
    by (cases "forEachCB_all this room reason events w1")
  show ?case
  proof (cases "event = first")
    case True
    with Cons.prems first have "\<exists>redacted. RedactEvent room (event_id event) reason redacted
        \<in> set effects"
      by (auto simp: forEachCB_def Let_def split: prod.splits)
    with first rest show ?thesis by auto
  next
    case False
    with Cons.prems have "event \<in> set events" by simp
    from Cons.IH [OF this Cons.prems(2,3), of w1] rest first show ?thesis by auto
  qed
qed

lemma marks_are_not_the_literals:
  "check_mark \<noteq> completed_key_literal" "check_mark \<noteq> failed_key_literal"
  "cross_mark \<noteq> completed_key_literal" "cross_mark \<noteq> failed_key_literal"
  by (simp_all add: check_mark_def cross_mark_def completed_key_literal_def
      failed_key_literal_def)

text \<open>
  Claim C6. The claim reads: the sweep redacts every enumerated reaction whose key is
  not one of the terminal marks U+2705 and U+274C, and never a reaction that bears
  one of them. The comparison in the source is with two other strings, U+201A U+00FA
  U+00D6 and U+201A U+00F9 U+00E5. The theorem runs the source on a prompt that bears
  the mark U+2705, which \<open>reactToEventWithResult\<close> sends for a success, and the choice
  of a user: both reactions are redacted.
\<close>

theorem completePrompt_redacts_terminal_mark:
  "reactToEventWithResult (example_platform [] (Ok ())) vote_prompt (Ok ()) ()
     = (Ok ''$sent'', [SendReaction ''!room'' ''$prompt'' check_mark (Ok ''$sent'')], ())
   \<and> completePrompt
       (example_handler
          [reaction_to ''$mark'' ''@bot:example.org'' ''$prompt'' check_mark,
           reaction_to ''$choice'' ''@alice:example.org'' ''$prompt'' ''1'']
          (Ok ()))
       ''!room'' ''$prompt'' (Some ''done'') ()
     = (Ok (),
        [ForEachRelation ''!room'' ''$prompt'' ''m.annotation'' ''m.reaction'' (Ok ()),
         RedactEvent ''!room'' ''$mark'' (Some ''done'') (Ok ()),
         RedactEvent ''!room'' ''$choice'' (Some ''done'') (Ok ())], ())"
  by (simp add: reactToEventWithResult_def completePrompt_def forEachCB_def relation_key_def
      completed_key_literal_def failed_key_literal_def example_defs)

text \<open>
  Claim C10. The result of \<open>completePrompt\<close> is the result of the enumeration,
  whatever the redacter answers: the answer to a redaction is recorded in the trace
  and read by nothing. In the example the only redaction is refused and the sweep
  returns success.
\<close>

theorem completePrompt_result_ignores_redactions:
  "fst (completePrompt
          (this\<lparr>clientPlatform := (clientPlatform this)\<lparr>redactEvent := redacter\<rparr>\<rparr>)
          room ev reason w)
     = snd (fst (forEachRelation (clientPlatform this) room ev
                   ''m.annotation'' ''m.reaction'' w))
   \<and> completePrompt
       (example_handler [reaction_to ''$choice'' ''@alice:example.org'' ''$prompt'' ''1'']
          (Err (ActionError ''M_FORBIDDEN'')))
       ''!room'' ''$prompt'' (Some ''done'') ()
     = (Ok (),
        [ForEachRelation ''!room'' ''$prompt'' ''m.annotation'' ''m.reaction'' (Ok ()),
         RedactEvent ''!room'' ''$choice'' (Some ''done'') (Err (ActionError ''M_FORBIDDEN''))],
        ())"
proof
  show "fst (completePrompt
          (this\<lparr>clientPlatform := (clientPlatform this)\<lparr>redactEvent := redacter\<rparr>\<rparr>)
          room ev reason w)
     = snd (fst (forEachRelation (clientPlatform this) room ev
                   ''m.annotation'' ''m.reaction'' w))"
    by (simp add: completePrompt_def split: prod.splits)
next
  show "completePrompt
       (example_handler [reaction_to ''$choice'' ''@alice:example.org'' ''$prompt'' ''1'']
          (Err (ActionError ''M_FORBIDDEN'')))
       ''!room'' ''$prompt'' (Some ''done'') ()
     = (Ok (),
        [ForEachRelation ''!room'' ''$prompt'' ''m.annotation'' ''m.reaction'' (Ok ()),
         RedactEvent ''!room'' ''$choice'' (Some ''done'') (Err (ActionError ''M_FORBIDDEN''))],
        ())"
    by (simp add: completePrompt_def forEachCB_def relation_key_def
        completed_key_literal_def failed_key_literal_def example_defs)
qed

subsection \<open>cancelPrompt\<close>

text \<open>
  Claim C7. \<open>cancelPrompt\<close> runs the sweep with the reason of the caller, or with
  \<open>prompt cancelled\<close> when there is none. When the sweep fails, its failure and its
  trace are the whole of the call: no reaction is sent. When the sweep succeeds, one
  reaction is sent, the literal followed by the sender of the prompt; the call returns
  the success of the sweep whether that reaction was accepted or refused, and a
  refusal is written to the log.
\<close>

theorem cancelPrompt_sweep_then_notice:
  "case completePrompt this (room_id prompt) (event_id prompt)
          (Some (case cancelReason of None \<Rightarrow> ''prompt cancelled'' | Some r \<Rightarrow> r)) w of
     (Err e, effects, w1) \<Rightarrow>
       cancelPrompt this prompt cancelReason w = (Err e, effects, w1)
         \<and> filter isSendReaction effects = []
   | (Ok u, effects, w1) \<Rightarrow>
       filter isSendReaction effects = [] \<and>
       (case sendReaction (clientPlatform this) (room_id prompt) (event_id prompt)
               (cancelled_by_literal @ sender prompt) w1 of
          (Ok sent, w2) \<Rightarrow>
            cancelPrompt this prompt cancelReason w
              = (Ok u,
                 effects @ [SendReaction (room_id prompt) (event_id prompt)
                              (cancelled_by_literal @ sender prompt) (Ok sent)], w2)
        | (Err e, w2) \<Rightarrow>
            cancelPrompt this prompt cancelReason w
              = (Ok u,
                 effects @ [SendReaction (room_id prompt) (event_id prompt)
                              (cancelled_by_literal @ sender prompt) (Err e),
                            LogError (''Could not send cancelled reaction event for prompt ''
                                  @ event_id prompt @ '' in '' @ room_id prompt) e], w2))"
  by (auto simp: cancelPrompt_def split: prod.splits action_result.splits
      dest: completePrompt_no_send)

section \<open>Properties of the symbol generator\<close>

subsection \<open>Decimal digits\<close>

lemma digits_small [simp]: "n < 10 \<Longrightarrow> digits n = [n]"
  by (simp add: digits.simps)

lemma digits_step: "10 \<le> n \<Longrightarrow> digits n = digits (n div 10) @ [n mod 10]"
  by (subst digits.simps) simp

lemma digits_below_10: "d \<in> set (digits n) \<Longrightarrow> d < 10"
proof (induction n arbitrary: d rule: digits.induct)
  case (1 n)
  show ?case
  proof (cases "n < 10")
    case True
    with 1(2) show ?thesis by simp
  next
    case False
    with 1(2) have "d \<in> set (digits (n div 10)) \<or> d = n mod 10"
      by (auto simp: digits_step)
    then show ?thesis
    proof
      assume "d \<in> set (digits (n div 10))"
      with False show ?thesis by (rule 1(1))
    next
      assume "d = n mod 10"
      then show ?thesis by simp
    qed
  qed
qed

lemma digits_not_Nil [simp]: "digits n \<noteq> []"
  by (subst digits.simps) simp

lemma digits_times_10: "0 < s \<Longrightarrow> digits (s * 10) = digits s @ [0]"
  by (subst digits.simps) simp

lemma digits_times_power: "0 < s \<Longrightarrow> digits (s * 10 ^ m) = digits s @ replicate m 0"
proof (induction m)
  case 0
  then show ?case by simp
next
  case (Suc m)
  then have "digits (s * 10 ^ m * 10) = digits (s * 10 ^ m) @ [0]"
    by (intro digits_times_10) simp
  moreover have "s * 10 ^ Suc m = s * 10 ^ m * 10" by simp
  ultimately show ?case using Suc
    by (simp only: replicate_Suc replicate_append_same [symmetric] append_assoc)
qed

lemma below_power_length: "n < 10 ^ length (digits n)"
proof (induction n rule: digits.induct)
  case (1 n)
  show ?case
  proof (cases "n < 10")
    case True
    then show ?thesis by simp
  next
    case False
    with 1 have "n div 10 < 10 ^ length (digits (n div 10))" by simp
    then have "n < 10 * 10 ^ length (digits (n div 10))" by simp
    with False show ?thesis by (simp add: digits_step)
  qed
qed

lemma length_digits_le: "n < 10 ^ k \<Longrightarrow> 0 < k \<Longrightarrow> length (digits n) \<le> k"
proof (induction n arbitrary: k rule: digits.induct)
  case (1 n)
  show ?case
  proof (cases "n < 10")
    case True
    with 1 show ?thesis by simp
  next
    case False
    have "1 < k"
    proof (rule ccontr)
      assume "\<not> 1 < k"
      then have "k = 0 \<or> k = 1" by arith
      with 1(2) False show False by auto
    qed
    then obtain k' where k: "k = Suc k'" "0 < k'" by (cases k) auto
    with 1(2) have "n div 10 < 10 ^ k'" by (simp add: less_mult_imp_div_less mult.commute)
    with 1(1) False k have "length (digits (n div 10)) \<le> k'" by simp
    with False k show ?thesis by (simp add: digits_step)
  qed
qed



subsection \<open>Integers below \<open>2 ^ 53\<close> are written digit by digit\<close>

text \<open>
  A natural number from \<open>2 ^ 53\<close> on rounds to a double from \<open>2 ^ 53\<close> on, so the
  only number that rounds to an \<open>x\<close> below \<open>2 ^ 53\<close> is \<open>x\<close>. Whatever number of
  digits the search stops at, the digits found and the zeros after them are the
  decimal digits of \<open>x\<close>.
\<close>

lemma bit_length_bounds: "0 < n \<Longrightarrow> 2 ^ (bit_length n - 1) \<le> n \<and> n < 2 ^ bit_length n"
proof (induction n rule: bit_length.induct)
  case (1 n)
  show ?case
  proof (cases "n div 2 = 0")
    case True
    with 1(2) have "n = 1" by (simp add: div_eq_0_iff)
    then show ?thesis by (simp add: bit_length.simps)
  next
    case False
    with 1 have IH: "2 ^ (bit_length (n div 2) - 1) \<le> n div 2" "n div 2 < 2 ^ bit_length (n div 2)"
      by auto
    have bl: "bit_length n = Suc (bit_length (n div 2))"
      using 1(2) by (subst bit_length.simps) simp
    have pos: "0 < bit_length (n div 2)"
      using False by (subst bit_length.simps) simp
    then obtain b where b: "bit_length (n div 2) = Suc b" by (cases "bit_length (n div 2)") auto
    from IH b have "2 * 2 ^ b \<le> n" "n < 2 * 2 ^ Suc b" by auto
    with bl b show ?thesis by simp
  qed
qed

lemma js_round_large:
  assumes "2 ^ 53 \<le> y"
  shows "2 ^ 53 \<le> js_round y"
proof -
  define e where "e = bit_length y - 53"
  define q where "q = y div 2 ^ e"
  from assms have pos: "0 < y" by (simp add: less_le_trans [of 0 "2 ^ 53"])
  from bit_length_bounds [OF pos] have b: "2 ^ (bit_length y - 1) \<le> y" "y < 2 ^ bit_length y"
    by auto
  from assms b(2) have "(2::nat) ^ 53 < 2 ^ bit_length y" by (rule le_less_trans)
  then have bl: "53 < bit_length y"
    by (rule power_less_imp_less_exp [of 2, rotated]) simp
  then have e: "bit_length y - 1 = 52 + e" "1 \<le> e" by (auto simp: e_def)
  have "2 ^ 52 * 2 ^ e \<le> y" using b(1) e(1) by (simp add: power_add)
  then have "2 ^ 52 \<le> q" unfolding q_def
    by (simp add: less_eq_div_iff_mult_less_eq)
  then have "2 ^ 52 * 2 ^ e \<le> q * 2 ^ e" by simp
  moreover have "(2::nat) ^ 53 \<le> 2 ^ 52 * 2 ^ e"
  proof -
    have "(2::nat) ^ 1 \<le> 2 ^ e" using e(2) by (intro power_increasing) auto
    then have "(2::nat) ^ 52 * 2 ^ 1 \<le> 2 ^ 52 * 2 ^ e" by (intro mult_le_mono2)
    then show ?thesis by simp
  qed
  ultimately have low: "2 ^ 53 \<le> q * 2 ^ e" by (rule order_trans [rotated])
  have "q * 2 ^ e \<le> (q + 1) * 2 ^ e" by simp
  with low have high: "2 ^ 53 \<le> (q + 1) * 2 ^ e" by (rule order_trans)
  from assms have "\<not> y < 2 ^ 53" by simp
  then have "js_round y = q * 2 ^ e \<or> js_round y = (q + 1) * 2 ^ e"
    unfolding js_round_def Let_def e_def q_def by (simp only: if_False) (simp split: if_splits)
  with low high show ?thesis by auto
qed

lemma js_round_safe:
  assumes "x < 2 ^ 53" and "js_round y = x"
  shows "y = x"
proof (cases "y < 2 ^ 53")
  case True
  then have "js_round y = y" unfolding js_round_def by (simp only: if_True)
  with assms(2) show ?thesis by simp
next
  case False
  then have "2 ^ 53 \<le> y" by (simp only: not_less)
  from js_round_large [OF this] assms have False by simp
  then show ?thesis ..
qed

lemma candidate_safe:
  assumes "x < 2 ^ 53" and "candidate x n k = Some s"
  shows "s * 10 ^ (n - k) = x"
proof -
  define u :: nat where "u = 10 ^ (n - k)"
  from assms(2) have "js_round (s * u) = x"
    unfolding candidate_def Let_def u_def [symmetric]
    by (auto split: if_splits)
  with assms(1) show ?thesis unfolding u_def by (rule js_round_safe)
qed

lemma shortest_safe:
  "shortest x n k = (s, k') \<Longrightarrow> k \<le> n \<Longrightarrow> x < 2 ^ 53
     \<Longrightarrow> s * 10 ^ (n - k') = x \<and> k' \<le> n"
proof (induction x n k rule: shortest.induct)
  case (1 x n k)
  show ?case
  proof (cases "n \<le> k")
    case True
    with 1(2) show ?thesis by (simp add: shortest.simps)
  next
    case False
    show ?thesis
    proof (cases "candidate x n k")
      case None
      with False 1(2) have "shortest x n (Suc k) = (s, k')" by (simp add: shortest.simps)
      with 1(1) [OF False None] False 1(4) show ?thesis by simp
    next
      case (Some t)
      with False 1(2) have "t = s" "k = k'" by (simp_all add: shortest.simps)
      with candidate_safe [OF 1(4) Some] 1(3) show ?thesis by simp
    qed
  qed
qed

lemma number_toString_safe:
  assumes "x < 2 ^ 53"
  shows "number_toString x = decimal x"
proof (cases "x = 0")
  case True
  then show ?thesis by (simp add: number_toString_def decimal_def digit_char_def)
next
  case False
  define len where "len = length (digits x)"
  have len: "1 \<le> len" unfolding len_def by (cases "digits x") simp_all
  have below: "x < 10 ^ len" unfolding len_def by (rule below_power_length)
  have "js_round (10 ^ len) \<noteq> x"
  proof
    assume "js_round (10 ^ len) = x"
    with assms have "10 ^ len = x" by (rule js_round_safe)
    with below show False by simp
  qed
  moreover obtain s k where sh: "shortest x len 1 = (s, k)" by (cases "shortest x len 1")
  moreover from shortest_safe [OF sh len assms] have s: "s * 10 ^ (len - k) = x" "k \<le> len"
    by simp_all
  moreover have "len \<le> 21"
  proof -
    from assms have "x < 10 ^ 16" by simp
    then have "length (digits x) \<le> 16" by (rule length_digits_le) simp
    then show ?thesis by (simp add: len_def)
  qed
  moreover have "0 < s" using s(1) False by (cases s) auto
  then have "digits (s * 10 ^ (len - k)) = digits s @ replicate (len - k) 0"
    by (rule digits_times_power)
  then have "decimal x = decimal s @ replicate (len - k) CHR ''0''"
    by (simp add: s(1) decimal_def digit_char_def)
  ultimately show ?thesis using False
    by (simp add: number_toString_def Let_def len_def [symmetric])
qed

text \<open>
  Beyond the integers that a double holds exactly the string is no longer the decimal
  digits of the number: \<open>2 ^ 64\<close> is written with the seventeen digits that
  identify the double, and from \<open>10 ^ 21\<close> on the string has an exponent.
\<close>

lemma number_toString_two_to_64:
  "js_round 18446744073709551616 = 18446744073709551616
   \<and> number_toString 18446744073709551616 = ''18446744073709552000''"
  by (simp add: number_toString_def Let_def digits.simps bit_length.simps shortest.simps
      candidate_def js_round_def decimal_def digit_char_def)


subsection \<open>The chain of replacements\<close>

text \<open>
  After the replacements for a set of digits the string is the one in which each of
  these digits is followed by the suffix. A replacement does not touch what the
  earlier ones wrote when the suffix has no digit: the digit in front of a suffix is
  not the one being replaced.
\<close>

lemma replace_all_append:
  "replace_all c r (xs @ ys) = replace_all c r xs @ replace_all c r ys"
  by (simp add: replace_all_def)

lemma replace_all_absent: "c \<notin> set s \<Longrightarrow> replace_all c r s = s"
  by (induction s) (auto simp: replace_all_def)

lemma replace_all_expand:
  assumes "c \<notin> D" and "c \<notin> set suffix"
  shows "replace_all c (c # suffix) (expand suffix D s) = expand suffix (insert c D) s"
proof (induction s)
  case Nil
  show ?case by (simp add: expand_def replace_all_def)
next
  case (Cons x s)
  have step: "expand suffix D (x # s) = (if x \<in> D then x # suffix else [x]) @ expand suffix D s"
    for D by (simp add: expand_def)
  have "replace_all c (c # suffix) (if x \<in> D then x # suffix else [x])
      = (if x \<in> insert c D then x # suffix else [x])"
  proof (cases "x \<in> D")
    case True
    with assms have "c \<notin> set (x # suffix)" by auto
    then have "replace_all c (c # suffix) (x # suffix) = x # suffix"
      by (rule replace_all_absent)
    with True show ?thesis by simp
  next
    case False
    then show ?thesis by (simp add: replace_all_def)
  qed
  with Cons show ?case by (simp only: step replace_all_append)
qed

lemma expand_empty: "expand suffix {} s = s"
  by (induction s) (simp_all add: expand_def)

lemma replace_digit:
  assumes "set suffix \<inter> digit_chars = {}" and "c \<in> digit_chars" and "c \<notin> D"
  shows "replace_all c (c # suffix) (expand suffix D s) = expand suffix (insert c D) s"
proof -
  from assms(1,2) have "c \<notin> set suffix" by auto
  with assms(3) show ?thesis by (rule replace_all_expand)
qed

lemma numberToEmoji_with_expand:
  assumes "set suffix \<inter> digit_chars = {}"
  shows "numberToEmoji_with suffix n = expand suffix digit_chars (number_toString n)"
proof -
  note step = replace_digit [OF assms]
  have "numberToEmoji_with suffix n
     = replace_all CHR ''9'' (CHR ''9'' # suffix)
        (replace_all CHR ''8'' (CHR ''8'' # suffix)
        (replace_all CHR ''7'' (CHR ''7'' # suffix)
        (replace_all CHR ''6'' (CHR ''6'' # suffix)
        (replace_all CHR ''5'' (CHR ''5'' # suffix)
        (replace_all CHR ''4'' (CHR ''4'' # suffix)
        (replace_all CHR ''3'' (CHR ''3'' # suffix)
        (replace_all CHR ''2'' (CHR ''2'' # suffix)
        (replace_all CHR ''1'' (CHR ''1'' # suffix)
        (replace_all CHR ''0'' (CHR ''0'' # suffix)
           (expand suffix {} (number_toString n)))))))))))"
    by (simp only: numberToEmoji_with_def Let_def expand_empty)
  also have "\<dots> = expand suffix
       (insert CHR ''9'' (insert CHR ''8'' (insert CHR ''7'' (insert CHR ''6''
       (insert CHR ''5'' (insert CHR ''4'' (insert CHR ''3'' (insert CHR ''2''
       (insert CHR ''1'' (insert CHR ''0'' {})))))))))) (number_toString n)"
    by (simp add: step digit_chars_def)
  also have "insert CHR ''9'' (insert CHR ''8'' (insert CHR ''7'' (insert CHR ''6''
       (insert CHR ''5'' (insert CHR ''4'' (insert CHR ''3'' (insert CHR ''2''
       (insert CHR ''1'' (insert CHR ''0'' {}))))))))) = digit_chars"
    by (auto simp: digit_chars_def)
  finally show ?thesis .
qed

subsection \<open>numberToEmoji and createItemizedReactionMap\<close>

lemma digit_cases:
  "d < 10 \<Longrightarrow> d = 0 \<or> d = 1 \<or> d = 2 \<or> d = 3 \<or> d = 4 \<or> d = 5 \<or> d = 6 \<or> d = 7
     \<or> d = 8 \<or> d = (9::nat)"
  by arith

lemma digit_char_in_digit_chars: "d < 10 \<Longrightarrow> digit_char d \<in> digit_chars"
  using digit_cases [of d] by (auto simp: digit_char_def digit_chars_def)


lemma expand_digits:
  "(\<And>d. d \<in> set ds \<Longrightarrow> d < 10)
     \<Longrightarrow> expand suffix digit_chars (map digit_char ds) = concat (map (symbol suffix) ds)"
  by (induction ds) (simp_all add: expand_def symbol_def digit_char_in_digit_chars)

lemma numberToEmoji_with_safe:
  assumes "set suffix \<inter> digit_chars = {}" and "n < 2 ^ 53"
  shows "numberToEmoji_with suffix n = concat (map (symbol suffix) (digits n))"
proof -
  have "numberToEmoji_with suffix n = expand suffix digit_chars (map digit_char (digits n))"
    by (simp only: numberToEmoji_with_expand [OF assms(1)] number_toString_safe [OF assms(2)]
        decimal_def)
  also have "\<dots> = concat (map (symbol suffix) (digits n))"
    by (rule expand_digits) (rule digits_below_10)
  finally show ?thesis .
qed


lemma source_suffix_has_no_digit: "set source_suffix \<inter> digit_chars = {}"
  by (simp add: source_suffix_def digit_chars_def)



text \<open>
  The suffix of the source is not the suffix of a keycap symbol, so for no digit is
  the string that \<open>numberToEmoji\<close> returns the keycap symbol of the digit.
\<close>

lemma numberToEmoji_digit_is_no_keycap:
  assumes "d < 10"
  shows "numberToEmoji d = symbol source_suffix d" and "numberToEmoji d \<noteq> symbol keycap_suffix d"
proof -
  from assms have "d < 2 ^ 53" by simp
  then have "numberToEmoji d = concat (map (symbol source_suffix) (digits d))"
    by (simp only: numberToEmoji_def numberToEmoji_with_safe [OF source_suffix_has_no_digit])
  with assms show first: "numberToEmoji d = symbol source_suffix d" by simp
  show "numberToEmoji d \<noteq> symbol keycap_suffix d"
    unfolding first by (simp add: symbol_def source_suffix_def keycap_suffix_def)
qed








end
